theory Spec2Isabelle
  imports Complex_Main
begin

section \<open>Email lead monitor: a shallow embedding of \<open>src/index.js\<close>\<close>

text \<open>
  The program keeps two pieces of process-wide state (the set \<open>processedEmails\<close> and the
  array \<open>logs\<close>) and talks to two remote services (the mailbox and the chat-completion
  service). The state is a record that every function takes and returns. The remote
  services, the clock and the JavaScript built-ins the program relies on are an
  environment of functions; every remote answer may depend on a counter \<open>tick\<close> that
  advances at each interaction, so the same request can be answered differently at
  different moments. Each remote call is also appended to a \<open>trace\<close>.

  JavaScript numbers are modelled as rationals, the literal \<open>0.6\<close> as \<open>6/10\<close>. The pacing
  delay of one second between candidates and the output on the console are not modelled.
\<close>

subsection \<open>JavaScript values and errors\<close>

datatype js_error =
    GatewayError string
  | TypeError string
  | SyntaxError string

fun error_message :: "js_error \<Rightarrow> string" where
  "error_message (GatewayError m) = m"
| "error_message (TypeError m) = m"
| "error_message (SyntaxError m) = m"

datatype jsval =
    JUndefined
  | JNull
  | JBool bool
  | JNum rat
  | JStr string
  | JArr "jsval list"
  | JObj "(string \<times> jsval) list"

text \<open>
  \<open>JObj\<close> lists the own properties of an object, each key once. \<open>JUndefined\<close> is no
  result of \<open>JSON.parse\<close>; it is what reading an absent property yields.
\<close>

text \<open>Truthiness, as used by \<open>&&\<close>, \<open>? :\<close> and \<open>if\<close>.\<close>

fun truthy :: "jsval \<Rightarrow> bool" where
  "truthy JUndefined = False"
| "truthy JNull = False"
| "truthy (JBool b) = b"
| "truthy (JNum n) = (n \<noteq> 0)"
| "truthy (JStr s) = (s \<noteq> [])"
| "truthy (JArr xs) = True"
| "truthy (JObj kvs) = True"

text \<open>
  Property read \<open>v.k\<close>. Reading a property of \<open>undefined\<close> or \<open>null\<close> throws a TypeError;
  an object yields its own property or \<open>undefined\<close>. The program reads only \<open>isLead\<close>,
  \<open>confidence\<close> and \<open>reason\<close>, which no primitive wrapper or array prototype defines, so
  these yield \<open>undefined\<close>.
\<close>

definition cannot_read :: "string \<Rightarrow> string \<Rightarrow> js_error" where
  "cannot_read what k =
     TypeError (''Cannot read properties of '' @ what @ '' (reading '' @ [CHR 0x27] @ k @ [CHR 0x27] @ '')'')"

fun get_prop :: "jsval \<Rightarrow> string \<Rightarrow> js_error + jsval" where
  "get_prop JUndefined k = Inl (cannot_read ''undefined'' k)"
| "get_prop JNull k = Inl (cannot_read ''null'' k)"
| "get_prop (JObj kvs) k = (case map_of kvs k of None \<Rightarrow> Inr JUndefined | Some v \<Rightarrow> Inr v)"
| "get_prop v k = Inr JUndefined"

definition then_sum :: "'e + 'a \<Rightarrow> ('a \<Rightarrow> 'e + 'b) \<Rightarrow> 'e + 'b" where
  "then_sum r f = (case r of Inl e \<Rightarrow> Inl e | Inr a \<Rightarrow> f a)"

subsection \<open>Data exchanged with the remote services\<close>

record part_body =
  data :: "string option"

record message_part =
  mimeType :: string
  part_body :: "part_body option"

record payload =
  headers :: "(string \<times> string) list option"
  body :: "part_body option"
  parts :: "message_part list option"

record raw_message =
  threadId :: string
  payload :: payload

record chat_request =
  model :: string
  content :: string
  temperature :: rat
  max_tokens :: "nat option"

text \<open>The object \<open>{ subject, body, from, to }\<close> built in \<open>processEmail\<close>.\<close>

record email =
  e_subject :: string
  e_body :: string
  e_from :: string
  e_to :: string

text \<open>
  The events of the trace: one for each call of a remote service, with the arguments that
  name a message, a thread or a label, and \<open>ProcessEmail i\<close>, which marks the entry into
  \<open>processEmail\<close> for the message \<open>i\<close> and is no remote call.
\<close>

datatype event =
    ProcessEmail string
  | MessagesList
  | MessagesGet string
  | ChatCompletion chat_request
  | DraftsCreate string string
  | LabelsList
  | LabelsCreate string
  | MessagesModify string string

text \<open>
  The environment. \<open>messages_list\<close> answers with \<open>response.data.messages\<close> (the ids of the
  stubs; \<open>None\<close> when the field is absent), \<open>chat_create\<close> with the \<open>message.content\<close> of each
  choice (\<open>None\<close> for \<open>null\<close>), \<open>labels_list\<close> with the (name, id) pairs of
  \<open>labels.data.labels\<close>. The remaining fields are built-ins: \<open>JSON.parse\<close>, base64 coding of
  \<open>Buffer\<close>, and the conversions of values to numbers and strings.
\<close>

record env =
  now :: "nat \<Rightarrow> string"
  messages_list :: "nat \<Rightarrow> js_error + string list option"
  messages_get :: "nat \<Rightarrow> string \<Rightarrow> js_error + raw_message"
  chat_create :: "nat \<Rightarrow> chat_request \<Rightarrow> js_error + string option list"
  drafts_create :: "nat \<Rightarrow> string \<Rightarrow> string \<Rightarrow> js_error + string"
  labels_list :: "nat \<Rightarrow> js_error + (string \<times> string) list option"
  labels_create :: "nat \<Rightarrow> string \<Rightarrow> js_error + string"
  messages_modify :: "nat \<Rightarrow> string \<Rightarrow> string \<Rightarrow> js_error + unit"
  JSON_parse :: "string \<Rightarrow> js_error + jsval"
  base64_encode :: "string \<Rightarrow> string"
  base64_decode :: "string \<Rightarrow> string"
  StringToNumber :: "string \<Rightarrow> rat option"
  ObjectToNumber :: "jsval \<Rightarrow> js_error + rat option"
  NumberToString :: "rat \<Rightarrow> string"
  ObjectToString :: "jsval \<Rightarrow> js_error + string"

record world =
  processedEmails :: "string set"
  logs :: "string list"
  tick :: nat
  trace :: "event list"

definition initial_world :: world where
  "initial_world = \<lparr>processedEmails = {}, logs = [], tick = 0, trace = []\<rparr>"

definition call :: "world \<Rightarrow> event \<Rightarrow> world" where
  "call w ev = w\<lparr>tick := Suc (tick w), trace := trace w @ [ev]\<rparr>"

subsection \<open>Conversions\<close>

text \<open>\<open>ToNumber\<close>; \<open>None\<close> is NaN.\<close>

fun to_number :: "env \<Rightarrow> jsval \<Rightarrow> js_error + rat option" where
  "to_number E JUndefined = Inr None"
| "to_number E JNull = Inr (Some 0)"
| "to_number E (JBool b) = Inr (Some (if b then 1 else 0))"
| "to_number E (JNum n) = Inr (Some n)"
| "to_number E (JStr s) = Inr (StringToNumber E s)"
| "to_number E v = ObjectToNumber E v"

text \<open>\<open>v > t\<close> for a number \<open>t\<close>: false when \<open>v\<close> converts to NaN.\<close>

definition js_gt :: "env \<Rightarrow> jsval \<Rightarrow> rat \<Rightarrow> js_error + jsval" where
  "js_gt E v t =
     (case to_number E v of
        Inl e \<Rightarrow> Inl e
      | Inr None \<Rightarrow> Inr (JBool False)
      | Inr (Some n) \<Rightarrow> Inr (JBool (n > t)))"

text \<open>\<open>ToString\<close>, as applied by a template literal.\<close>

fun to_string :: "env \<Rightarrow> jsval \<Rightarrow> js_error + string" where
  "to_string E JUndefined = Inr ''undefined''"
| "to_string E JNull = Inr ''null''"
| "to_string E (JBool b) = Inr (if b then ''true'' else ''false'')"
| "to_string E (JNum n) = Inr (NumberToString E n)"
| "to_string E (JStr s) = Inr s"
| "to_string E v = ObjectToString E v"

text \<open>\<open>Array.prototype.join\<close> on strings.\<close>

fun join :: "string \<Rightarrow> string list \<Rightarrow> string" where
  "join sep [] = []"
| "join sep [x] = x"
| "join sep (x # y # ys) = x @ sep @ join sep (y # ys)"

definition LF :: string where
  "LF = [CHR 0x0A]"

definition CRLF :: string where
  "CRLF = [CHR 0x0D, CHR 0x0A]"

subsection \<open>\<open>log\<close> and the \<open>/logs\<close> endpoint\<close>

definition log :: "env \<Rightarrow> string \<Rightarrow> world \<Rightarrow> world" where
  "log E message w =
     (let timestamp = now E (tick w);
          logEntry = ''['' @ timestamp @ ''] '' @ message;
          pushed = logs w @ [logEntry]
      in w\<lparr>logs := (if length pushed > 100 then tl pushed else pushed), tick := Suc (tick w)\<rparr>)"

text \<open>Recording a sequence of messages, one \<open>log\<close> call each.\<close>

fun log_many :: "env \<Rightarrow> string list \<Rightarrow> world \<Rightarrow> world" where
  "log_many E [] w = w"
| "log_many E (m # ms) w = log_many E ms (log E m w)"

text \<open>\<open>xs.slice(-k)\<close>.\<close>

definition slice_last :: "nat \<Rightarrow> 'a list \<Rightarrow> 'a list" where
  "slice_last k xs = drop (length xs - k) xs"

record logs_response =
  res_logs :: "string list"
  res_total :: nat

definition get_logs :: "world \<Rightarrow> logs_response" where
  "get_logs w = \<lparr>res_logs = slice_last 50 (logs w), res_total = length (logs w)\<rparr>"

subsection \<open>\<open>analyzeEmailContent\<close>\<close>

definition analysis_prompt :: "string \<Rightarrow> string \<Rightarrow> string" where
  \<open>analysis_prompt subject body' = join LF
     [''Analyze this email to determine if the sender is inquiring about business services, products, or is a potential lead.'',
      '''',
      ''Subject: '' @ subject,
      ''Body: '' @ body',
      '''',
      ''Respond with a JSON object containing:'',
      ''- "isLead": boolean (true if this appears to be a service inquiry or potential business lead)'',
      ''- "confidence": number (0-1, how confident you are)'',
      ''- "reason": string (brief explanation of why this is/isn't a lead)'',
      ''- "keywords": array of relevant keywords found'',
      '''',
      ''Consider these as potential lead indicators:'',
      ''- Asking about services, products, pricing'',
      ''- Requesting quotes or information'',
      ''- Business inquiries'',
      ''- Partnership opportunities'',
      ''- Questions about capabilities'',
      '''',
      ''Exclude:'',
      ''- Personal emails'',
      ''- Spam/promotional emails'',
      ''- Newsletters'',
      ''- Social notifications'',
      ''- Internal communications'']\<close>

definition analysis_request :: "string \<Rightarrow> string \<Rightarrow> chat_request" where
  "analysis_request subject body' =
     \<lparr>model = ''gpt-3.5-turbo'', content = analysis_prompt subject body',
      temperature = 3 / 10, max_tokens = None\<rparr>"

text \<open>\<open>response.choices[0].message.content\<close>: with no choice, \<open>choices[0]\<close> is \<open>undefined\<close>.\<close>

definition first_content :: "string option list \<Rightarrow> js_error + string option" where
  "first_content choices =
     (case choices of
        [] \<Rightarrow> Inl (cannot_read ''undefined'' ''message'')
      | c # rest \<Rightarrow> Inr c)"

text \<open>\<open>JSON.parse(content)\<close>: a \<open>null\<close> argument is first converted to the text \<open>null\<close>.\<close>

definition parse_content :: "env \<Rightarrow> string option \<Rightarrow> js_error + jsval" where
  "parse_content E c = JSON_parse E (case c of None \<Rightarrow> ''null'' | Some text \<Rightarrow> text)"

definition fallback_analysis :: jsval where
  "fallback_analysis =
     JObj [(''isLead'', JBool False), (''confidence'', JNum 0),
           (''reason'', JStr ''Analysis failed''), (''keywords'', JArr [])]"

text \<open>The body of the \<open>try\<close> block, as far as it can throw: the call, the read, the parse.\<close>

definition classifier_response :: "env \<Rightarrow> nat \<Rightarrow> chat_request \<Rightarrow> js_error + jsval" where
  "classifier_response E t req =
     then_sum (then_sum (chat_create E t req) first_content) (parse_content E)"

definition analyzeEmailContent :: "env \<Rightarrow> string \<Rightarrow> string \<Rightarrow> world \<Rightarrow> jsval \<times> world" where
  "analyzeEmailContent E subject body' w =
     (let req = analysis_request subject body';
          w1 = call w (ChatCompletion req)
      in case classifier_response E (tick w) req of
           Inr parsed \<Rightarrow> (parsed, w1)
         | Inl error \<Rightarrow>
             (fallback_analysis,
              log E (''Error analyzing email content: '' @ error_message error) w1))"

subsection \<open>\<open>generateDraftResponse\<close>\<close>

definition lead_prompt :: "email \<Rightarrow> string" where
  \<open>lead_prompt originalEmail = join LF
     [''Generate a professional, friendly draft response to this potential business lead inquiry:'',
      '''',
      ''Original Email Subject: '' @ e_subject originalEmail,
      ''Original Email: '' @ e_body originalEmail,
      ''Sender: '' @ e_from originalEmail,
      '''',
      ''Create a response that:'',
      ''- Thanks them for their interest'',
      ''- Acknowledges their specific inquiry'',
      ''- Provides helpful information about your services'',
      ''- Includes a call to action (meeting, call, more info)'',
      ''- Maintains a professional but warm tone'',
      ''- Is concise but informative'',
      '''',
      ''Do not include placeholder company information - keep it generic but professional.'']\<close>

definition other_prompt :: "email \<Rightarrow> string" where
  \<open>other_prompt originalEmail = join LF
     [''Generate a brief, polite response to this email:'',
      '''',
      ''Original Email Subject: '' @ e_subject originalEmail,
      ''Original Email: '' @ e_body originalEmail,
      ''Sender: '' @ e_from originalEmail,
      '''',
      ''Create a short, courteous response that:'',
      ''- Acknowledges their message'',
      ''- Is helpful and professional'',
      ''- Keeps it brief since this isn't a business inquiry'']\<close>

definition draft_request :: "email \<Rightarrow> jsval \<Rightarrow> chat_request" where
  "draft_request originalEmail isLead =
     \<lparr>model = ''gpt-3.5-turbo'',
      content = (if truthy isLead then lead_prompt originalEmail else other_prompt originalEmail),
      temperature = 7 / 10, max_tokens = Some 300\<rparr>"

definition lead_fallback :: string where
  \<open>lead_fallback =
     ''Thank you for your inquiry about our services. I'll get back to you shortly with more information.''\<close>

definition other_fallback :: string where
  \<open>other_fallback = ''Thank you for your email. I'll review it and get back to you if needed.''\<close>

text \<open>The result is the content of the first choice, \<open>None\<close> when that content is \<open>null\<close>.\<close>

definition generateDraftResponse ::
  "env \<Rightarrow> email \<Rightarrow> jsval \<Rightarrow> jsval \<Rightarrow> world \<Rightarrow> string option \<times> world" where
  "generateDraftResponse E originalEmail isLead analysis w =
     (let req = draft_request originalEmail isLead;
          w1 = call w (ChatCompletion req)
      in case then_sum (chat_create E (tick w) req) first_content of
           Inr text \<Rightarrow> (text, w1)
         | Inl error \<Rightarrow>
             (Some (if truthy isLead then lead_fallback else other_fallback),
              log E (''Error generating draft response: '' @ error_message error) w1))"

subsection \<open>\<open>createDraftResponse\<close>\<close>

definition url_safe :: "string \<Rightarrow> string" where
  "url_safe s =
     map (\<lambda>c. if c = CHR ''/'' then CHR ''_'' else c)
       (map (\<lambda>c. if c = CHR ''+'' then CHR ''-'' else c) s)"

text \<open>\<open>join\<close> renders a \<open>null\<close> element as the empty string.\<close>

definition envelope :: "string \<Rightarrow> string \<Rightarrow> string \<Rightarrow> string option \<Rightarrow> string" where
  "envelope originalMessageId to' subject body' = join CRLF
     [''To: '' @ to',
      ''Subject: Re: '' @ subject,
      ''In-Reply-To: '' @ originalMessageId,
      ''References: '' @ originalMessageId,
      '''',
      (case body' of None \<Rightarrow> '''' | Some text \<Rightarrow> text)]"

definition createDraftResponse ::
  "env \<Rightarrow> string \<Rightarrow> string \<Rightarrow> string \<Rightarrow> string option \<Rightarrow> string \<Rightarrow> world
     \<Rightarrow> (js_error + string) \<times> world" where
  "createDraftResponse E originalMessageId to' subject body' threadId' w =
     (let raw = url_safe (base64_encode E (envelope originalMessageId to' subject body'));
          w1 = call w (DraftsCreate threadId' raw)
      in case drafts_create E (tick w) threadId' raw of
           Inr draft \<Rightarrow> (Inr draft, w1)
         | Inl error \<Rightarrow>
             (Inl error, log E (''Error creating draft response: '' @ error_message error) w1))"

subsection \<open>\<open>addLabelToEmail\<close>\<close>

text \<open>The inner \<open>try\<close> block: find the label by name, create it when there is none.\<close>

definition resolve_label :: "env \<Rightarrow> string \<Rightarrow> world \<Rightarrow> (js_error + string) \<times> world" where
  "resolve_label E labelName w =
     (let w1 = call w LabelsList
      in case labels_list E (tick w) of
           Inl error \<Rightarrow> (Inl error, w1)
         | Inr None \<Rightarrow> (Inl (cannot_read ''undefined'' ''find''), w1)
         | Inr (Some labels) \<Rightarrow>
             (case find (\<lambda>label. fst label = labelName) labels of
                Some existingLabel \<Rightarrow> (Inr (snd existingLabel), w1)
              | None \<Rightarrow>
                  (let w2 = call w1 (LabelsCreate labelName)
                   in case labels_create E (tick w1) labelName of
                        Inl error \<Rightarrow> (Inl error, w2)
                      | Inr newId \<Rightarrow> (Inr newId, w2))))"

definition addLabelToEmail :: "env \<Rightarrow> string \<Rightarrow> string \<Rightarrow> world \<Rightarrow> world" where
  \<open>addLabelToEmail E messageId labelName w =
     (case resolve_label E labelName w of
        (Inl error, w1) \<Rightarrow> log E (''Error managing label: '' @ error_message error) w1
      | (Inr labelId, w1) \<Rightarrow>
          (let w2 = call w1 (MessagesModify messageId labelId)
           in case messages_modify E (tick w1) messageId labelId of
                Inl error \<Rightarrow> log E (''Error adding label to email: '' @ error_message error) w2
              | Inr ok \<Rightarrow>
                  log E (''Added label "'' @ labelName @ ''" to message '' @ messageId) w2))\<close>

subsection \<open>Decoding a fetched message (\<open>processEmail\<close>, lines 198 to 212)\<close>

text \<open>\<open>headers.find(h => h.name === n)?.value || ''\<close>\<close>

definition header_value :: "(string \<times> string) list \<Rightarrow> string \<Rightarrow> string" where
  "header_value hs n =
     (case find (\<lambda>h. fst h = n) hs of None \<Rightarrow> '''' | Some h \<Rightarrow> snd h)"

text \<open>
  The test \<open>if (b.data)\<close> is one of truthiness: an absent \<open>data\<close> and an empty one both
  fail it. \<open>inline_data\<close> gives the data that passes the test.
\<close>

definition inline_data :: "part_body \<Rightarrow> string option" where
  "inline_data b = (case data b of None \<Rightarrow> None | Some d \<Rightarrow> if d = [] then None else Some d)"

definition extract_body :: "env \<Rightarrow> payload \<Rightarrow> js_error + string" where
  "extract_body E p =
     (case body p of
        None \<Rightarrow> Inl (cannot_read ''undefined'' ''data'')
      | Some b \<Rightarrow>
          (case inline_data b of
             Some d \<Rightarrow> Inr (base64_decode E d)
           | None \<Rightarrow>
               (case parts p of
                  None \<Rightarrow> Inr ''''
                | Some ps \<Rightarrow>
                    (case find (\<lambda>part. mimeType part = ''text/plain'') ps of
                       None \<Rightarrow> Inr ''''
                     | Some textPart \<Rightarrow>
                         (case part_body textPart of
                            None \<Rightarrow> Inl (cannot_read ''undefined'' ''data'')
                          | Some tb \<Rightarrow>
                              (case inline_data tb of
                                 Some d \<Rightarrow> Inr (base64_decode E d)
                               | None \<Rightarrow> Inr ''''))))))"

definition decode :: "env \<Rightarrow> raw_message \<Rightarrow> js_error + email" where
  "decode E fullMessage =
     (case headers (payload fullMessage) of
        None \<Rightarrow> Inl (cannot_read ''undefined'' ''find'')
      | Some hs \<Rightarrow>
          (case extract_body E (payload fullMessage) of
             Inl error \<Rightarrow> Inl error
           | Inr text \<Rightarrow>
               Inr \<lparr>e_subject = header_value hs ''Subject'', e_body = text,
                    e_from = header_value hs ''From'', e_to = header_value hs ''To''\<rparr>))"

text \<open>
  The body-extraction policy in the words of the specification, for a payload whose
  inline data and sub-parts are given: the inline data if present, else the data of the
  first sub-part of type text/plain, else the empty string.
\<close>

definition spec_body :: "env \<Rightarrow> string option \<Rightarrow> (string \<times> string option) list \<Rightarrow> string" where
  "spec_body E inline subparts =
     (case inline of
        Some d \<Rightarrow> base64_decode E d
      | None \<Rightarrow>
          (case find (\<lambda>sp. fst sp = ''text/plain'') subparts of
             Some (ty, Some d) \<Rightarrow> base64_decode E d
           | Some (ty, None) \<Rightarrow> ''''
           | None \<Rightarrow> ''''))"

text \<open>The sub-parts of a payload as (content type, data passing the test) pairs.\<close>

definition subparts_of :: "payload \<Rightarrow> (string \<times> string option) list" where
  "subparts_of p =
     (case parts p of
        None \<Rightarrow> []
      | Some ps \<Rightarrow>
          map (\<lambda>part. (mimeType part,
                 case part_body part of None \<Rightarrow> None | Some tb \<Rightarrow> inline_data tb)) ps)"

text \<open>
  A payload that follows the provider's wire contract: the header array and the body
  object are there, and so is the body object of every sub-part.
\<close>

definition wire_ok :: "payload \<Rightarrow> bool" where
  "wire_ok p =
     (headers p \<noteq> None \<and> body p \<noteq> None \<and>
      (case parts p of None \<Rightarrow> True | Some ps \<Rightarrow> list_all (\<lambda>part. part_body part \<noteq> None) ps))"

subsection \<open>\<open>processEmail\<close>\<close>

datatype processing_result =
    Success (r_messageId: string) (r_from: string) (r_subject: string)
            (r_isLead: jsval) (r_confidence: jsval) (r_label: string)
  | Failure (r_error: string)

text \<open>Line 218: \<open>analysis.isLead && analysis.confidence > 0.6\<close>.\<close>

definition effective_lead :: "env \<Rightarrow> jsval \<Rightarrow> js_error + jsval" where
  "effective_lead E analysis =
     (case get_prop analysis ''isLead'' of
        Inl error \<Rightarrow> Inl error
      | Inr l \<Rightarrow>
          if truthy l
          then (case get_prop analysis ''confidence'' of
                  Inl error \<Rightarrow> Inl error
                | Inr c \<Rightarrow> js_gt E c (6 / 10))
          else Inr l)"

text \<open>Line 220: the text of the log entry; each interpolation may throw.\<close>

definition analysis_log_line :: "env \<Rightarrow> jsval \<Rightarrow> jsval \<Rightarrow> js_error + string" where
  "analysis_log_line E isLead analysis =
     then_sum (to_string E isLead) (\<lambda>s1.
     then_sum (get_prop analysis ''confidence'') (\<lambda>c.
     then_sum (to_string E c) (\<lambda>s2.
     then_sum (get_prop analysis ''reason'') (\<lambda>r.
     then_sum (to_string E r) (\<lambda>s3.
       Inr (''Email analysis - Lead: '' @ s1 @ '', Confidence: '' @ s2 @ '', Reason: '' @ s3))))))"

text \<open>What the second half of \<open>processEmail\<close> still uses once the draft exists.\<close>

record drafted =
  d_email :: email
  d_isLead :: jsval
  d_analysis :: jsval

text \<open>
  Lines 192 to 236 of the \<open>try\<close> block: fetch, decode, classify, draft, create the draft.
  The first event is a mark of the entry into \<open>processEmail\<close>; it is not a remote call.
\<close>

definition draft_stage :: "env \<Rightarrow> string \<Rightarrow> world \<Rightarrow> (js_error + drafted) \<times> world" where
  "draft_stage E message w =
     (let w0 = w\<lparr>trace := trace w @ [ProcessEmail message]\<rparr>;
          w1 = call w0 (MessagesGet message)
      in case messages_get E (tick w0) message of
           Inl error \<Rightarrow> (Inl error, w1)
         | Inr fullMessage \<Rightarrow>
      (case decode E fullMessage of
           Inl error \<Rightarrow> (Inl error, w1)
         | Inr em \<Rightarrow>
      (let w2 = log E (''Processing email from '' @ e_from em @ '': '' @ e_subject em) w1
       in case analyzeEmailContent E (e_subject em) (e_body em) w2 of (analysis, w3) \<Rightarrow>
      (case effective_lead E analysis of
           Inl error \<Rightarrow> (Inl error, w3)
         | Inr isLead \<Rightarrow>
      (case analysis_log_line E isLead analysis of
           Inl error \<Rightarrow> (Inl error, w3)
         | Inr line \<Rightarrow>
      (let w4 = log E line w3
       in case generateDraftResponse E em isLead analysis w4 of (draftBody, w5) \<Rightarrow>
      (case createDraftResponse E message (e_from em) (e_subject em) draftBody
              (threadId fullMessage) w5 of
           (Inl error, w6) \<Rightarrow> (Inl error, w6)
         | (Inr draft, w6) \<Rightarrow>
             (Inr \<lparr>d_email = em, d_isLead = isLead, d_analysis = analysis\<rparr>, w6))))))))"

text \<open>
  Lines 238 to 252: label the message, then build the result, which reads
  \<open>analysis.confidence\<close> once more.
\<close>

definition label_stage ::
  "env \<Rightarrow> string \<Rightarrow> drafted \<Rightarrow> world \<Rightarrow> (js_error + processing_result) \<times> world" where
  \<open>label_stage E message d w =
     (let labelName = (if truthy (d_isLead d) then ''lead'' else ''other'');
          w1 = addLabelToEmail E message labelName w;
          w2 = log E (''Successfully processed email '' @ message @
                      '' - Created draft and added "'' @ labelName @ ''" label'') w1
      in case get_prop (d_analysis d) ''confidence'' of
           Inl error \<Rightarrow> (Inl error, w2)
         | Inr c \<Rightarrow>
             (Inr (Success message (e_from (d_email d)) (e_subject (d_email d))
                     (d_isLead d) c labelName), w2))\<close>

text \<open>The \<open>try\<close> block as a whole, and the \<open>catch\<close> around it.\<close>

definition processEmail_try ::
  "env \<Rightarrow> string \<Rightarrow> world \<Rightarrow> (js_error + processing_result) \<times> world" where
  "processEmail_try E message w =
     (case draft_stage E message w of
        (Inl error, w1) \<Rightarrow> (Inl error, w1)
      | (Inr d, w1) \<Rightarrow> label_stage E message d w1)"

definition processEmail :: "env \<Rightarrow> string \<Rightarrow> world \<Rightarrow> processing_result \<times> world" where
  "processEmail E message w =
     (case processEmail_try E message w of
        (Inr result, w1) \<Rightarrow> (result, w1)
      | (Inl error, w1) \<Rightarrow>
          (Failure (error_message error),
           log E (''Error processing email '' @ message @ '': '' @ error_message error) w1))"

subsection \<open>\<open>monitorEmails\<close>\<close>

record cycle_report =
  processed :: nat
  results :: "processing_result list"

text \<open>The \<open>for\<close> loop over \<open>newEmails\<close>.\<close>

fun process_each ::
  "env \<Rightarrow> string list \<Rightarrow> processing_result list \<Rightarrow> world \<Rightarrow> processing_result list \<times> world" where
  "process_each E [] rs w = (rs, w)"
| "process_each E (email # rest) rs w =
     (case processEmail E email w of
        (result, w1) \<Rightarrow>
          process_each E rest (rs @ [result])
            (w1\<lparr>processedEmails := insert email (processedEmails w1)\<rparr>))"

definition monitorEmails :: "env \<Rightarrow> world \<Rightarrow> (js_error + cycle_report) \<times> world" where
  "monitorEmails E w =
     (let w1 = log E ''Checking for new emails...'' w;
          w2 = call w1 MessagesList
      in case messages_list E (tick w1) of
           Inl error \<Rightarrow>
             (Inl error, log E (''Error monitoring emails: '' @ error_message error) w2)
         | Inr None \<Rightarrow>
             (Inr \<lparr>processed = 0, results = []\<rparr>, log E ''No new emails found'' w2)
         | Inr (Some messages) \<Rightarrow>
             (let newEmails = filter (\<lambda>msg. msg \<notin> processedEmails w2) messages
              in if length newEmails = 0
                 then (Inr \<lparr>processed = 0, results = []\<rparr>,
                       log E ''No new unprocessed emails found'' w2)
                 else (let w3 = log E (''Found '' @ NumberToString E (of_nat (length newEmails))
                                       @ '' new emails to process'') w2
                       in case process_each E newEmails [] w3 of
                            (rs, w4) \<Rightarrow>
                              (Inr \<lparr>processed = length newEmails, results = rs\<rparr>, w4))))"

subsection \<open>Reading the trace\<close>

text \<open>The events a function appended, given the worlds before and after.\<close>

definition new_events :: "world \<Rightarrow> world \<Rightarrow> event list" where
  "new_events w w' = drop (length (trace w)) (trace w')"

text \<open>An event that concerns the message \<open>i\<close>: its processing, its fetch, its labelling.\<close>

fun concerns :: "string \<Rightarrow> event \<Rightarrow> bool" where
  "concerns i (ProcessEmail j) = (i = j)"
| "concerns i (MessagesGet j) = (i = j)"
| "concerns i (MessagesModify j l) = (i = j)"
| "concerns i ev = False"

text \<open>The messages whose processing was entered, in order.\<close>

fun entered :: "event list \<Rightarrow> string list" where
  "entered [] = []"
| "entered (ProcessEmail i # evs) = i # entered evs"
| "entered (ev # evs) = entered evs"

fun is_label_call :: "event \<Rightarrow> bool" where
  "is_label_call LabelsList = True"
| "is_label_call (LabelsCreate n) = True"
| "is_label_call (MessagesModify i l) = True"
| "is_label_call ev = False"

text \<open>
  An event that the processing of message \<open>m\<close> may append after its entry mark: any call
  that names no message, and the fetch and the labelling of \<open>m\<close> itself.
\<close>

fun own :: "string \<Rightarrow> event \<Rightarrow> bool" where
  "own m (ProcessEmail j) = False"
| "own m MessagesList = False"
| "own m (MessagesGet j) = (j = m)"
| "own m (MessagesModify j l) = (j = m)"
| "own m ev = True"

text \<open>
  \<open>attributed cur es evs\<close>: the events \<open>evs\<close> are the processing of the messages \<open>es\<close>,
  one after the other, each entered once, and every call lies inside the processing of
  one of them (\<open>cur\<close> is the message being processed when \<open>evs\<close> starts, if any).
\<close>

fun attributed :: "string option \<Rightarrow> string list \<Rightarrow> event list \<Rightarrow> bool" where
  "attributed cur es [] = (es = [])"
| "attributed cur es (ProcessEmail j # evs) =
     (case es of [] \<Rightarrow> False | e # rest \<Rightarrow> j = e \<and> attributed (Some e) rest evs)"
| "attributed cur es (ev # evs) =
     (case cur of None \<Rightarrow> False | Some m \<Rightarrow> own m ev \<and> attributed cur es evs)"

text \<open>
  \<open>steps P w w'\<close>: from \<open>w\<close> to \<open>w'\<close> the trace only grew, by events that satisfy \<open>P\<close>, and
  the set of processed messages did not change.
\<close>

definition steps :: "(event \<Rightarrow> bool) \<Rightarrow> world \<Rightarrow> world \<Rightarrow> bool" where
  "steps P w w' =
     (\<exists>evs. trace w' = trace w @ evs \<and> list_all P evs \<and> processedEmails w' = processedEmails w)"

text \<open>
  The candidates of a cycle started in \<open>w\<close>: the listed ids that are not in the set of
  processed messages (\<open>newEmails\<close> in \<open>monitorEmails\<close>). The listing is the second
  interaction of the cycle, after the first log entry, hence at \<open>Suc (tick w)\<close>.
\<close>

definition unprocessed :: "env \<Rightarrow> world \<Rightarrow> string list" where
  "unprocessed E w =
     (case messages_list E (Suc (tick w)) of
        Inr (Some messages) \<Rightarrow> filter (\<lambda>msg. msg \<notin> processedEmails w) messages
      | _ \<Rightarrow> [])"

subsection \<open>Sample data for concrete runs\<close>

definition sample_message :: raw_message where
  "sample_message =
     \<lparr>threadId = ''t1'',
      payload = \<lparr>headers = Some [(''Subject'', ''Pricing''), (''From'', ''ann@example.com''),
                                (''To'', ''me@example.com'')],
                 body = Some \<lparr>data = Some ''aGVsbG8=''\<rparr>,
                 parts = None\<rparr>\<rparr>"

definition multipart_message :: raw_message where
  "multipart_message =
     \<lparr>threadId = ''t2'',
      payload = \<lparr>headers = Some [(''subject'', ''lower case''), (''From'', ''bob@example.com'')],
                 body = Some \<lparr>data = None\<rparr>,
                 parts = Some [\<lparr>mimeType = ''text/html'', part_body = Some \<lparr>data = Some ''PGI+''\<rparr>\<rparr>,
                               \<lparr>mimeType = ''text/plain'', part_body = Some \<lparr>data = Some ''aGk=''\<rparr>\<rparr>]\<rparr>\<rparr>"

definition headerless_message :: raw_message where
  "headerless_message =
     \<lparr>threadId = ''t3'',
      payload = \<lparr>headers = None, body = Some \<lparr>data = Some ''aGk=''\<rparr>, parts = None\<rparr>\<rparr>"

definition sample_verdict :: "rat \<Rightarrow> jsval" where
  "sample_verdict c =
     JObj [(''isLead'', JBool True), (''confidence'', JNum c),
           (''reason'', JStr ''asks for pricing''), (''keywords'', JArr [JStr ''pricing''])]"

text \<open>
  An environment in which every service answers: three unread messages are listed, each
  fetch returns \<open>sample_message\<close>, each completion is the text \<open>Hello\<close>, which the parser
  reads as a lead of confidence 0.9. The base64 functions are the identity here.
\<close>

definition up_env :: env where
  "up_env =
     \<lparr>now = (\<lambda>t. ''T''),
      messages_list = (\<lambda>t. Inr (Some [''a'', ''b'', ''c''])),
      messages_get = (\<lambda>t i. Inr sample_message),
      chat_create = (\<lambda>t req. Inr [Some ''Hello'']),
      drafts_create = (\<lambda>t th raw. Inr ''d1''),
      labels_list = (\<lambda>t. Inr (Some [(''lead'', ''L1''), (''other'', ''L2'')])),
      labels_create = (\<lambda>t n. Inr ''L3''),
      messages_modify = (\<lambda>t i l. Inr ()),
      JSON_parse = (\<lambda>s. Inr (sample_verdict (9 / 10))),
      base64_encode = (\<lambda>s. s),
      base64_decode = (\<lambda>s. s),
      StringToNumber = (\<lambda>s. None),
      ObjectToNumber = (\<lambda>v. Inr None),
      NumberToString = (\<lambda>n. ''n''),
      ObjectToString = (\<lambda>v. Inr ''[object Object]'')\<rparr>"

text \<open>Variations: the parser reads a confidence of 1.5; the parser reads \<open>null\<close>.\<close>

definition overconfident_env :: env where
  "overconfident_env = up_env\<lparr>JSON_parse := (\<lambda>s. Inr (sample_verdict (3 / 2)))\<rparr>"

definition null_verdict_env :: env where
  "null_verdict_env = up_env\<lparr>JSON_parse := (\<lambda>s. Inr JNull)\<rparr>"

text \<open>Variations: the completion service fails; it answers with the empty text.\<close>

definition chat_down_env :: env where
  "chat_down_env = up_env\<lparr>chat_create := (\<lambda>t req. Inl (GatewayError ''timeout''))\<rparr>"

definition empty_reply_env :: env where
  "empty_reply_env = up_env\<lparr>chat_create := (\<lambda>t req. Inr [Some ''''])\<rparr>"

text \<open>Variation: every label call fails.\<close>

definition labels_down_env :: env where
  "labels_down_env =
     up_env\<lparr>labels_list := (\<lambda>t. Inl (GatewayError ''labels unavailable'')),
            labels_create := (\<lambda>t n. Inl (GatewayError ''labels unavailable'')),
            messages_modify := (\<lambda>t i l. Inl (GatewayError ''labels unavailable''))\<rparr>"

text \<open>Variation: the fetch of message \<open>b\<close> fails.\<close>

definition fetch_b_fails_env :: env where
  "fetch_b_fails_env =
     up_env\<lparr>messages_get := (\<lambda>t i. if i = ''b'' then Inl (GatewayError ''not found'')
                                     else Inr sample_message)\<rparr>"

definition sample_email :: email where
  "sample_email =
     \<lparr>e_subject = ''Pricing'', e_body = ''aGVsbG8='', e_from = ''ann@example.com'',
      e_to = ''me@example.com''\<rparr>"

definition sample_drafted :: drafted where
  "sample_drafted =
     \<lparr>d_email = sample_email, d_isLead = JBool True, d_analysis = sample_verdict (9 / 10)\<rparr>"

text \<open>A world whose set of processed messages is \<open>{a}\<close>, and one whose log store is full.\<close>

definition ledger_a :: world where
  "ledger_a = initial_world\<lparr>processedEmails := {''a''}\<rparr>"

definition full_store :: world where
  "full_store = initial_world\<lparr>logs := replicate 100 ''[T] old''\<rparr>"

section \<open>Properties\<close>

subsection \<open>The log store\<close>

lemma logs_log:
  "logs (log E m w) =
     (if length (logs w) \<ge> 100 then tl (logs w @ [''['' @ now E (tick w) @ ''] '' @ m])
      else logs w @ [''['' @ now E (tick w) @ ''] '' @ m])"
  by (simp add: log_def Let_def)

lemma tick_log: "tick (log E x w) = Suc (tick w)"
  by (simp add: log_def Let_def)

lemma trace_log: "trace (log E x w) = trace w"
  by (simp add: log_def Let_def)

lemma processed_log: "processedEmails (log E x w) = processedEmails w"
  by (simp add: log_def Let_def)

lemma length_logs_log:
  "length (logs w) \<le> 100 \<Longrightarrow> length (logs (log E m w)) = min 100 (Suc (length (logs w)))"
  by (simp add: logs_log)

lemma length_logs_log_le: "length (logs w) \<le> 100 \<Longrightarrow> length (logs (log E m w)) \<le> 100"
  by (simp add: length_logs_log)

lemma length_logs_log_many:
  "length (logs w) \<le> 100 \<Longrightarrow>
   length (logs (log_many E ms w)) = min 100 (length (logs w) + length ms)"
proof (induction ms arbitrary: w)
  case Nil
  then show ?case by simp
next
  case (Cons m ms)
  have "length (logs (log E m w)) \<le> 100"
    using Cons.prems by (rule length_logs_log_le)
  then have "length (logs (log_many E ms (log E m w))) =
      min 100 (length (logs (log E m w)) + length ms)"
    by (rule Cons.IH)
  then show ?case using Cons.prems by (simp add: length_logs_log)
qed

text \<open>
  C9. A log store of at most 100 entries still has at most 100 after \<open>log\<close> inserted one.
  Inserting into a store of exactly 100 drops the oldest entry and keeps the other 99 in
  their order, followed by the new entry; below 100 the new entry is only appended.
\<close>

theorem log_store_bounded:
  "length (logs w) \<le> 100 \<Longrightarrow>
     length (logs (log E m w)) \<le> 100 \<and>
     (length (logs w) = 100 \<longrightarrow>
        logs (log E m w) = tl (logs w) @ [''['' @ now E (tick w) @ ''] '' @ m]) \<and>
     (length (logs w) < 100 \<longrightarrow>
        logs (log E m w) = logs w @ [''['' @ now E (tick w) @ ''] '' @ m])"
  by (cases "logs w") (simp_all add: logs_log)

text \<open>The same at a full store: the 101st entry evicts the first.\<close>

theorem log_store_bounded_witness:
  "length (logs full_store) \<le> 100 \<and> length (logs full_store) = 100 \<and>
   length (logs (log up_env ''new'' full_store)) \<le> 100 \<and>
   logs (log up_env ''new'' full_store) = replicate 99 ''[T] old'' @ [''[T] new'']"
proof -
  have h: "length (logs full_store) \<le> 100"
    by (simp add: full_store_def initial_world_def)
  have e: "length (logs full_store) = 100"
    by (simp add: full_store_def initial_world_def)
  have t: "tl (logs full_store) = replicate 99 ''[T] old''"
    by (simp add: full_store_def initial_world_def tl_replicate)
  have n: "now up_env (tick full_store) = ''T''"
    by (simp add: up_env_def)
  from log_store_bounded [OF h, of up_env "''new''"] h e t n show ?thesis by simp
qed

text \<open>
  C10, as amended. \<open>GET /logs\<close> returns the last 50 entries of the store, never more than
  50, and a \<open>total\<close> that is the number of entries the store holds now. After the messages
  \<open>ms\<close> were recorded from the empty store, that number is the smaller of 100 and the
  all-time count \<open>length ms\<close>.
\<close>

theorem get_logs_window:
  "length (res_logs (get_logs w)) \<le> 50 \<and>
   res_logs (get_logs w) = drop (length (logs w) - 50) (logs w) \<and>
   res_total (get_logs w) = length (logs w) \<and>
   res_total (get_logs (log_many E ms initial_world)) = min 100 (length ms)"
  by (simp add: get_logs_def slice_last_def length_logs_log_many initial_world_def)

text \<open>After 101 entries were recorded, \<open>total\<close> is 100, not the all-time count.\<close>

theorem get_logs_total_capped:
  "res_total (get_logs (log_many up_env (replicate 101 ''entry'') initial_world)) = 100 \<and>
   length (replicate 101 ''entry'') = 101"
  by (simp add: get_logs_def length_logs_log_many initial_world_def)

subsection \<open>The effective-lead flag\<close>

text \<open>
  C1. For a verdict whose \<open>isLead\<close> is the boolean \<open>b\<close> and whose \<open>confidence\<close> is the
  number \<open>c\<close>, the flag computed at line 218 is the boolean \<open>b \<and> c > 0.6\<close>; at a
  confidence of exactly 0.6 it is false.
\<close>

theorem effective_lead_threshold:
  "get_prop analysis ''isLead'' = Inr (JBool b) \<Longrightarrow>
   get_prop analysis ''confidence'' = Inr (JNum c) \<Longrightarrow>
     effective_lead E analysis = Inr (JBool (b \<and> c > 6 / 10)) \<and>
     (c = 6 / 10 \<longrightarrow> effective_lead E analysis = Inr (JBool False))"
  by (simp add: effective_lead_def js_gt_def)

text \<open>A lead verdict of confidence exactly 0.6 is not an effective lead.\<close>

theorem effective_lead_threshold_witness:
  "get_prop (sample_verdict (6 / 10)) ''isLead'' = Inr (JBool True) \<and>
   get_prop (sample_verdict (6 / 10)) ''confidence'' = Inr (JNum (6 / 10)) \<and>
   effective_lead up_env (sample_verdict (6 / 10)) = Inr (JBool False)"
proof -
  have a: "get_prop (sample_verdict (6 / 10)) ''isLead'' = Inr (JBool True)"
    by (simp add: sample_verdict_def)
  have b: "get_prop (sample_verdict (6 / 10)) ''confidence'' = Inr (JNum (6 / 10))"
    by (simp add: sample_verdict_def)
  from effective_lead_threshold [OF a b, of up_env] a b show ?thesis by simp
qed

subsection \<open>The classifier\<close>

lemma fst_analyzeEmailContent:
  "fst (analyzeEmailContent E s b w) =
     (case classifier_response E (tick w) (analysis_request s b) of
        Inl e \<Rightarrow> fallback_analysis | Inr v \<Rightarrow> v)"
  by (simp add: analyzeEmailContent_def Let_def split: sum.splits)

lemmas run_defs =
  processEmail_def processEmail_try_def draft_stage_def label_stage_def decode_def extract_body_def
  inline_data_def header_value_def analyzeEmailContent_def classifier_response_def
  then_sum_def first_content_def parse_content_def effective_lead_def js_gt_def
  analysis_log_line_def generateDraftResponse_def createDraftResponse_def
  addLabelToEmail_def resolve_label_def call_def log_def Let_def initial_world_def

text \<open>
  C2, as amended. The confidence of the verdict that \<open>analyzeEmailContent\<close> hands to the
  threshold comparison is the confidence of the parsed response of the service, unchanged
  (nothing clamps or rejects it), or 0 when the classifier fell back. It therefore lies
  within [0,1] when the value of the service does, and only then.
\<close>

theorem confidence_passed_through:
  "get_prop (fst (analyzeEmailContent E s b w)) ''confidence'' =
     (case classifier_response E (tick w) (analysis_request s b) of
        Inl e \<Rightarrow> Inr (JNum 0)
      | Inr v \<Rightarrow> get_prop v ''confidence'')"
  by (simp add: fst_analyzeEmailContent fallback_analysis_def split: sum.splits)

text \<open>
  A parsed confidence of 1.5 reaches the comparison and the result as it is: the message
  is an effective lead of confidence 1.5.
\<close>

theorem confidence_unclamped:
  "r_confidence (fst (processEmail overconfident_env ''m1'' initial_world)) = JNum (3 / 2) \<and>
   r_isLead (fst (processEmail overconfident_env ''m1'' initial_world)) = JBool True \<and>
   \<not> ((3 / 2 :: rat) \<le> 1)"
  by (simp add: run_defs overconfident_env_def up_env_def sample_message_def sample_verdict_def)

text \<open>
  C5, as amended. When the call of the service throws, when the response has no choice,
  or when the text of the first choice does not parse, \<open>analyzeEmailContent\<close> returns the
  fallback verdict, whose reason is \<open>Analysis failed\<close>, and throws nothing. A text that
  parses is returned as parsed, whatever its shape.
\<close>

theorem classifier_fallback:
  "fst (analyzeEmailContent E s b w) =
     (case chat_create E (tick w) (analysis_request s b) of
        Inl e \<Rightarrow> JObj [(''isLead'', JBool False), (''confidence'', JNum 0),
                        (''reason'', JStr ''Analysis failed''), (''keywords'', JArr [])]
      | Inr [] \<Rightarrow> JObj [(''isLead'', JBool False), (''confidence'', JNum 0),
                        (''reason'', JStr ''Analysis failed''), (''keywords'', JArr [])]
      | Inr (c # cs) \<Rightarrow>
          (case parse_content E c of
             Inl e \<Rightarrow> JObj [(''isLead'', JBool False), (''confidence'', JNum 0),
                             (''reason'', JStr ''Analysis failed''), (''keywords'', JArr [])]
           | Inr v \<Rightarrow> v))"
  by (simp add: fst_analyzeEmailContent classifier_response_def then_sum_def first_content_def
        fallback_analysis_def split: sum.splits list.splits)

text \<open>
  A response that parses to \<open>null\<close> is returned as the verdict, and the processing of the
  message then fails on reading \<open>isLead\<close>; and the verdict returned on a failure of the
  service is not the one with the reason \<open>analysis failed\<close>.
\<close>

theorem classifier_schema_unchecked:
  "fst (analyzeEmailContent null_verdict_env ''Pricing'' ''hello'' initial_world) = JNull \<and>
   fst (processEmail null_verdict_env ''m1'' initial_world)
     = Failure (error_message (cannot_read ''null'' ''isLead'')) \<and>
   fst (analyzeEmailContent chat_down_env ''Pricing'' ''hello'' initial_world)
     \<noteq> JObj [(''isLead'', JBool False), (''confidence'', JNum 0),
              (''reason'', JStr ''analysis failed''), (''keywords'', JArr [])]"
  by (simp add: run_defs null_verdict_env_def chat_down_env_def up_env_def sample_message_def
        fallback_analysis_def)

subsection \<open>The drafter\<close>

text \<open>
  C6, as amended. When the call of the service throws or the response has no choice,
  \<open>generateDraftResponse\<close> returns a fixed text, which is not empty and differs between
  the lead and the non-lead branch. Otherwise it returns the content of the first choice
  as it is.
\<close>

theorem draft_text:
  "fst (generateDraftResponse E em isLead analysis w) =
     (case chat_create E (tick w) (draft_request em isLead) of
        Inl e \<Rightarrow> Some (if truthy isLead then lead_fallback else other_fallback)
      | Inr [] \<Rightarrow> Some (if truthy isLead then lead_fallback else other_fallback)
      | Inr (c # cs) \<Rightarrow> c) \<and>
   lead_fallback \<noteq> [] \<and> other_fallback \<noteq> [] \<and> lead_fallback \<noteq> other_fallback"
  by (simp add: generateDraftResponse_def Let_def then_sum_def first_content_def
        lead_fallback_def other_fallback_def split: sum.splits list.splits)

text \<open>When the service answers with the empty text, the draft text is empty.\<close>

theorem draft_text_empty:
  "fst (generateDraftResponse empty_reply_env sample_email (JBool True)
          (sample_verdict (9 / 10)) initial_world) = Some ''''"
  by (simp add: generateDraftResponse_def Let_def then_sum_def first_content_def
        empty_reply_env_def up_env_def)

subsection \<open>The decoder\<close>

lemma header_value_map_of:
  "header_value hs n = (case map_of hs n of None \<Rightarrow> [] | Some v \<Rightarrow> v)"
  by (induction hs) (auto simp: header_value_def)

lemma text_part_body:
  "list_all (\<lambda>part. part_body part \<noteq> None) ps \<Longrightarrow>
     (case find (\<lambda>part. mimeType part = ''text/plain'') ps of
        None \<Rightarrow> Inr ''''
      | Some textPart \<Rightarrow>
          (case part_body textPart of
             None \<Rightarrow> Inl err
           | Some tb \<Rightarrow>
               (case inline_data tb of
                  Some d \<Rightarrow> Inr (base64_decode E d)
                | None \<Rightarrow> Inr '''')))
     = Inr (spec_body E None
              (map (\<lambda>part. (mimeType part,
                      case part_body part of None \<Rightarrow> None | Some tb \<Rightarrow> inline_data tb)) ps))"
  by (induction ps) (auto simp: spec_body_def split: option.splits)

lemma extract_body_wire_ok:
  "body p = Some b \<Longrightarrow> wire_ok p \<Longrightarrow>
     extract_body E p = Inr (spec_body E (inline_data b) (subparts_of p))"
proof (cases "inline_data b")
  case (Some d)
  assume "body p = Some b"
  with Some show ?thesis by (simp add: extract_body_def spec_body_def)
next
  case None
  assume b: "body p = Some b" and ok: "wire_ok p"
  show ?thesis
  proof (cases "parts p")
    case None
    with b \<open>inline_data b = None\<close> show ?thesis
      by (simp add: extract_body_def spec_body_def subparts_of_def)
  next
    case (Some ps)
    with ok have "list_all (\<lambda>part. part_body part \<noteq> None) ps"
      by (simp add: wire_ok_def)
    from text_part_body [OF this] b Some \<open>inline_data b = None\<close> show ?thesis
      by (simp add: extract_body_def subparts_of_def)
  qed
qed

text \<open>
  C7, as amended. For a fetched message whose payload has its header array and its body
  object, and whose sub-parts have their body objects, decoding raises nothing. Subject,
  From and To are the values of the first header of exactly that name, the empty string
  when there is none. The body is the decoded inline data of the payload if it has any,
  else the decoded data of the first sub-part of type exactly \<open>text/plain\<close>, else the
  empty string.
\<close>

theorem decode_wire_ok:
  "headers (payload m) = Some hs \<Longrightarrow> body (payload m) = Some b \<Longrightarrow> wire_ok (payload m) \<Longrightarrow>
     decode E m =
       Inr \<lparr>e_subject = (case map_of hs ''Subject'' of None \<Rightarrow> '''' | Some v \<Rightarrow> v),
            e_body = spec_body E (inline_data b) (subparts_of (payload m)),
            e_from = (case map_of hs ''From'' of None \<Rightarrow> '''' | Some v \<Rightarrow> v),
            e_to = (case map_of hs ''To'' of None \<Rightarrow> '''' | Some v \<Rightarrow> v)\<rparr>"
  by (simp add: decode_def extract_body_wire_ok header_value_map_of)

text \<open>
  A multipart message with a header \<open>subject\<close> in lower case and no \<open>To\<close>: subject and
  recipient are empty, the body is that of the text/plain part, the second one.
\<close>

theorem decode_wire_ok_witness:
  "headers (payload multipart_message) =
     Some [(''subject'', ''lower case''), (''From'', ''bob@example.com'')] \<and>
   body (payload multipart_message) = Some \<lparr>data = None\<rparr> \<and>
   wire_ok (payload multipart_message) \<and>
   decode up_env multipart_message =
     Inr \<lparr>e_subject = '''', e_body = ''aGk='', e_from = ''bob@example.com'', e_to = ''''\<rparr>"
proof -
  have h: "headers (payload multipart_message) =
      Some [(''subject'', ''lower case''), (''From'', ''bob@example.com'')]"
    by (simp add: multipart_message_def)
  have b: "body (payload multipart_message) = Some \<lparr>data = None\<rparr>"
    by (simp add: multipart_message_def)
  have w: "wire_ok (payload multipart_message)"
    by (simp add: multipart_message_def wire_ok_def)
  from decode_wire_ok [OF h b w, of up_env] h b w show ?thesis
    by (simp add: spec_body_def inline_data_def subparts_of_def multipart_message_def up_env_def)
qed

text \<open>A message whose payload has no header array: decoding raises a TypeError.\<close>

theorem decode_raises:
  "decode up_env headerless_message = Inl (cannot_read ''undefined'' ''find'')"
  by (simp add: decode_def headerless_message_def)

subsection \<open>What each function appends to the trace\<close>

lemma new_events_append: "trace w' = trace w @ evs \<Longrightarrow> new_events w w' = evs"
  by (simp add: new_events_def)

lemma steps_refl: "steps P w w"
  by (simp add: steps_def)

lemma steps_log: "steps P w w' \<Longrightarrow> steps P w (log E x w')"
  by (simp add: steps_def log_def Let_def)

lemma steps_call: "steps P w w' \<Longrightarrow> P ev \<Longrightarrow> steps P w (call w' ev)"
  by (auto simp: steps_def call_def)

lemma steps_trans: "steps P w w1 \<Longrightarrow> steps P w1 w2 \<Longrightarrow> steps P w w2"
  by (auto simp: steps_def)

lemma steps_weaken: "steps P w w' \<Longrightarrow> (\<And>ev. P ev \<Longrightarrow> Q ev) \<Longrightarrow> steps Q w w'"
  unfolding steps_def by (metis list.pred_mono_strong)

lemma steps_analyze:
  "steps (own m) w (snd (analyzeEmailContent E s b w))"
  by (auto simp: analyzeEmailContent_def Let_def split: sum.splits
           intro!: steps_log steps_call steps_refl)

lemma steps_generate:
  "steps (own m) w (snd (generateDraftResponse E em l a w))"
  by (auto simp: generateDraftResponse_def Let_def split: sum.splits
           intro!: steps_log steps_call steps_refl)

lemma steps_create:
  "steps (own m) w (snd (createDraftResponse E i t s b th w))"
  by (auto simp: createDraftResponse_def Let_def split: sum.splits
           intro!: steps_log steps_call steps_refl)

lemma steps_resolve:
  "steps (\<lambda>ev. is_label_call ev \<and> own m ev) w (snd (resolve_label E n w))"
  by (auto simp: resolve_label_def Let_def split: sum.splits option.splits
           intro!: steps_log steps_call steps_refl)

lemma steps_addLabel:
  "steps (\<lambda>ev. is_label_call ev \<and> own m ev) w (addLabelToEmail E m n w)"
proof -
  obtain r w1 where r: "resolve_label E n w = (r, w1)"
    by (cases "resolve_label E n w")
  with steps_resolve [of m w E n]
  have s: "steps (\<lambda>ev. is_label_call ev \<and> own m ev) w w1" by simp
  show ?thesis using r s
    by (auto simp: addLabelToEmail_def Let_def split: sum.splits
             intro!: steps_log steps_call)
qed

lemma chain_analyze:
  "analyzeEmailContent E s b w1 = (a, w2) \<Longrightarrow> steps (own m) w0 w1 \<Longrightarrow> steps (own m) w0 w2"
  using steps_analyze [of m w1 E s b] by (auto intro: steps_trans)

lemma chain_generate:
  "generateDraftResponse E em l a w1 = (t, w2) \<Longrightarrow> steps (own m) w0 w1 \<Longrightarrow> steps (own m) w0 w2"
  using steps_generate [of m w1 E em l a] by (auto intro: steps_trans)

lemma chain_create:
  "createDraftResponse E i t s b th w1 = (r, w2) \<Longrightarrow> steps (own m) w0 w1 \<Longrightarrow> steps (own m) w0 w2"
  using steps_create [of m w1 E i t s b th] by (auto intro: steps_trans)

lemma steps_draft_stage:
  "steps (own m) (w\<lparr>trace := trace w @ [ProcessEmail m]\<rparr>) (snd (draft_stage E m w))"
  by (auto simp: draft_stage_def Let_def split: sum.splits prod.splits
           intro!: steps_log steps_call steps_refl
           elim!: chain_analyze chain_generate chain_create)

lemma steps_label_stage:
  "steps (\<lambda>ev. is_label_call ev \<and> own m ev) w (snd (label_stage E m d w))"
  by (auto simp: label_stage_def Let_def split: sum.splits
           intro!: steps_log steps_addLabel)

lemma steps_processEmail:
  "steps (own m) (w\<lparr>trace := trace w @ [ProcessEmail m]\<rparr>) (snd (processEmail E m w))"
proof -
  obtain r w1 where d: "draft_stage E m w = (r, w1)"
    by (cases "draft_stage E m w")
  with steps_draft_stage [of m w E]
  have s1: "steps (own m) (w\<lparr>trace := trace w @ [ProcessEmail m]\<rparr>) w1" by simp
  show ?thesis
  proof (cases r)
    case (Inl e)
    with d s1 show ?thesis
      by (auto simp: processEmail_def processEmail_try_def intro!: steps_log)
  next
    case (Inr dd)
    obtain r2 w2 where l: "label_stage E m dd w1 = (r2, w2)"
      by (cases "label_stage E m dd w1")
    with steps_label_stage [of m w1 E dd]
    have "steps (\<lambda>ev. is_label_call ev \<and> own m ev) w1 w2" by simp
    then have "steps (own m) w1 w2" by (rule steps_weaken) simp
    with s1 have "steps (own m) (w\<lparr>trace := trace w @ [ProcessEmail m]\<rparr>) w2"
      by (rule steps_trans)
    with d Inr l show ?thesis
      by (auto simp: processEmail_def processEmail_try_def split: sum.splits intro!: steps_log)
  qed
qed

lemma processEmail_events:
  "\<exists>evs. trace (snd (processEmail E m w)) = trace w @ ProcessEmail m # evs \<and>
         list_all (own m) evs \<and>
         processedEmails (snd (processEmail E m w)) = processedEmails w"
  using steps_processEmail [of m w E] by (auto simp: steps_def)

lemma attributed_own_append:
  "list_all (own e) seg \<Longrightarrow> attributed (Some e) es evs \<Longrightarrow> attributed (Some e) es (seg @ evs)"
proof (induction seg)
  case Nil
  then show ?case by simp
next
  case (Cons ev seg)
  then show ?case by (cases ev) simp_all
qed

lemma attributed_entered: "attributed cur es evs \<Longrightarrow> entered evs = es"
  by (induction cur es evs rule: attributed.induct) (auto split: list.splits option.splits)

lemma attributed_concerns:
  "attributed cur es evs \<Longrightarrow> ev \<in> set evs \<Longrightarrow> concerns i ev \<Longrightarrow> i \<in> set es \<or> cur = Some i"
  by (induction cur es evs rule: attributed.induct) (auto split: list.splits option.splits)

lemma process_each_events:
  "\<exists>evs. trace (snd (process_each E es rs w)) = trace w @ evs \<and>
         (\<forall>cur. attributed cur es evs) \<and>
         processedEmails (snd (process_each E es rs w)) = processedEmails w \<union> set es"
proof (induction es arbitrary: rs w)
  case Nil
  show ?case by simp
next
  case (Cons e es)
  obtain r w1 where p: "processEmail E e w = (r, w1)"
    by (cases "processEmail E e w")
  from processEmail_events [of E e w] p obtain seg where
    seg: "trace w1 = trace w @ ProcessEmail e # seg" "list_all (own e) seg"
         "processedEmails w1 = processedEmails w" by auto
  let ?w2 = "w1\<lparr>processedEmails := insert e (processedEmails w1)\<rparr>"
  from Cons.IH [of "rs @ [r]" ?w2] obtain evs where
    evs: "trace (snd (process_each E es (rs @ [r]) ?w2)) = trace ?w2 @ evs"
         "\<forall>cur. attributed cur es evs"
         "processedEmails (snd (process_each E es (rs @ [r]) ?w2)) = processedEmails ?w2 \<union> set es"
    by blast
  have "attributed (Some e) es (seg @ evs)"
    using seg(2) evs(2) by (simp add: attributed_own_append)
  then have a: "\<forall>cur. attributed cur (e # es) (ProcessEmail e # seg @ evs)" by simp
  have t: "trace (snd (process_each E (e # es) rs w)) = trace w @ (ProcessEmail e # seg @ evs)"
    using p seg(1) evs(1) by simp
  have l: "processedEmails (snd (process_each E (e # es) rs w)) = processedEmails w \<union> set (e # es)"
    using p seg(3) evs(3) by simp
  from t a l show ?case by blast
qed

lemma process_each_length:
  "length (fst (process_each E es rs w)) = length rs + length es"
  by (induction es arbitrary: rs w) (auto split: prod.splits)

lemma monitorEmails_events:
  "\<exists>evs. trace (snd (monitorEmails E w)) = trace w @ MessagesList # evs \<and>
         attributed None (unprocessed E w) evs \<and>
         processedEmails (snd (monitorEmails E w)) = processedEmails w \<union> set (unprocessed E w)"
proof (cases "messages_list E (Suc (tick w))")
  case (Inl e)
  then show ?thesis
    by (simp add: monitorEmails_def unprocessed_def Let_def tick_log trace_log processed_log call_def)
next
  case (Inr r)
  show ?thesis
  proof (cases r)
    case None
    with Inr show ?thesis
      by (simp add: monitorEmails_def unprocessed_def Let_def tick_log trace_log processed_log call_def)
  next
    case (Some ms)
    let ?es = "filter (\<lambda>msg. msg \<notin> processedEmails w) ms"
    have u: "unprocessed E w = ?es" using Inr Some by (simp add: unprocessed_def)
    show ?thesis
    proof (cases "?es = []")
      case True
      with Inr Some u show ?thesis
        by (simp add: monitorEmails_def Let_def tick_log trace_log processed_log call_def)
    next
      case False
      let ?w2 = "call (log E ''Checking for new emails...'' w) MessagesList"
      let ?w3 = "log E (''Found '' @ NumberToString E (of_nat (length ?es))
                        @ '' new emails to process'') ?w2"
      from process_each_events [of E ?es "[]" ?w3] obtain evs where
        evs: "trace (snd (process_each E ?es [] ?w3)) = trace ?w3 @ evs"
             "\<forall>cur. attributed cur ?es evs"
             "processedEmails (snd (process_each E ?es [] ?w3)) = processedEmails ?w3 \<union> set ?es"
        by blast
      have m: "snd (monitorEmails E w) = snd (process_each E ?es [] ?w3)"
        using Inr Some False
        by (simp add: monitorEmails_def Let_def tick_log trace_log processed_log call_def
              split: prod.splits)
      have "trace (snd (monitorEmails E w)) = trace w @ MessagesList # evs"
        using m evs(1) by (simp add: trace_log call_def)
      moreover have "attributed None (unprocessed E w) evs" using evs(2) u by simp
      moreover have "processedEmails (snd (monitorEmails E w)) =
          processedEmails w \<union> set (unprocessed E w)"
        using m evs(3) u by (simp add: processed_log call_def)
      ultimately show ?thesis by blast
    qed
  qed
qed

lemma monitorEmails_report:
  "messages_list E (Suc (tick w)) = Inr (Some ms) \<Longrightarrow>
   \<exists>r. fst (monitorEmails E w) = Inr r \<and> processed r = length (unprocessed E w) \<and>
       length (results r) = length (unprocessed E w)"
  by (simp add: monitorEmails_def unprocessed_def Let_def tick_log processed_log call_def
        case_prod_beta process_each_length)

subsection \<open>The cycle\<close>

text \<open>
  C3. In a cycle started in \<open>w\<close>, no event concerns a message \<open>i\<close> that is in the set of
  processed messages of \<open>w\<close>: its processing is not entered, it is not fetched, it is not
  labelled. The events of the cycle are the listing followed by the processing of the
  unprocessed candidates, one after the other, and every completion request and draft
  creation lies inside the processing of one of them. When the listing returns
  \<open>[a, b, c]\<close> and the set is \<open>{a}\<close>, the messages processed are \<open>b\<close> and \<open>c\<close>, the set is
  \<open>{a, b, c}\<close> afterwards, and the report counts 2 processed messages with 2 results.
\<close>

theorem ledger_skips:
  "(i \<in> processedEmails w \<longrightarrow>
      list_all (\<lambda>ev. \<not> concerns i ev) (new_events w (snd (monitorEmails E w)))) \<and>
   new_events w (snd (monitorEmails E w)) =
      MessagesList # tl (new_events w (snd (monitorEmails E w))) \<and>
   attributed None (unprocessed E w) (tl (new_events w (snd (monitorEmails E w)))) \<and>
   (messages_list E (Suc (tick w)) = Inr (Some [a, b, c]) \<and> processedEmails w = {a} \<and>
    a \<noteq> b \<and> a \<noteq> c \<longrightarrow>
      entered (new_events w (snd (monitorEmails E w))) = [b, c] \<and>
      processedEmails (snd (monitorEmails E w)) = {a, b, c} \<and>
      (\<exists>r. fst (monitorEmails E w) = Inr r \<and> processed r = 2 \<and> length (results r) = 2))"
proof -
  from monitorEmails_events [of E w] obtain evs where
    evs: "trace (snd (monitorEmails E w)) = trace w @ MessagesList # evs"
         "attributed None (unprocessed E w) evs"
         "processedEmails (snd (monitorEmails E w)) = processedEmails w \<union> set (unprocessed E w)"
    by blast
  have n: "new_events w (snd (monitorEmails E w)) = MessagesList # evs"
    using evs(1) by (rule new_events_append)
  have skip: "list_all (\<lambda>ev. \<not> concerns i ev) (MessagesList # evs)" if i: "i \<in> processedEmails w"
  proof -
    have "i \<notin> set (unprocessed E w)" using i
      by (auto simp: unprocessed_def split: sum.splits option.splits)
    with attributed_concerns [OF evs(2)] have "\<forall>ev \<in> set evs. \<not> concerns i ev" by blast
    then show ?thesis by (simp add: list_all_iff)
  qed
  have scen: "entered (MessagesList # evs) = [b, c] \<and>
      processedEmails (snd (monitorEmails E w)) = {a, b, c} \<and>
      (\<exists>r. fst (monitorEmails E w) = Inr r \<and> processed r = 2 \<and> length (results r) = 2)"
    if h: "messages_list E (Suc (tick w)) = Inr (Some [a, b, c])" "processedEmails w = {a}"
          "a \<noteq> b" "a \<noteq> c"
  proof -
    have u: "unprocessed E w = [b, c]" using h by (auto simp: unprocessed_def)
    have "entered evs = [b, c]" using attributed_entered [OF evs(2)] u by simp
    moreover have "processedEmails (snd (monitorEmails E w)) = {a, b, c}"
      using evs(3) u h(2) by auto
    moreover have "\<exists>r. fst (monitorEmails E w) = Inr r \<and> processed r = 2 \<and> length (results r) = 2"
      using monitorEmails_report [OF h(1)] u by (simp add: numeral_2_eq_2)
    ultimately show ?thesis by simp
  qed
  show ?thesis using n skip scen evs(2) by simp
qed

text \<open>The scenario, run in an environment that lists \<open>a\<close>, \<open>b\<close> and \<open>c\<close>.\<close>

theorem ledger_skips_witness:
  "''a'' \<in> processedEmails ledger_a \<and>
   messages_list up_env (Suc (tick ledger_a)) = Inr (Some [''a'', ''b'', ''c'']) \<and>
   processedEmails ledger_a = {''a''} \<and> ''a'' \<noteq> ''b'' \<and> ''a'' \<noteq> ''c'' \<and>
   list_all (\<lambda>ev. \<not> concerns ''a'' ev) (new_events ledger_a (snd (monitorEmails up_env ledger_a))) \<and>
   entered (new_events ledger_a (snd (monitorEmails up_env ledger_a))) = [''b'', ''c''] \<and>
   processedEmails (snd (monitorEmails up_env ledger_a)) = {''a'', ''b'', ''c''} \<and>
   (\<exists>r. fst (monitorEmails up_env ledger_a) = Inr r \<and> processed r = 2 \<and> length (results r) = 2)"
proof -
  have h: "''a'' \<in> processedEmails ledger_a"
    "messages_list up_env (Suc (tick ledger_a)) = Inr (Some [''a'', ''b'', ''c''])"
    "processedEmails ledger_a = {''a''}" "''a'' \<noteq> ''b''" "''a'' \<noteq> ''c''"
    by (simp_all add: ledger_a_def initial_world_def up_env_def)
  from ledger_skips [of "''a''" ledger_a up_env "''a''" "''b''" "''c''"] h show ?thesis
    by blast
qed

lemma fst_processEmail:
  "fst (processEmail E m w) =
     (case fst (processEmail_try E m w) of
        Inl error \<Rightarrow> Failure (error_message error)
      | Inr result \<Rightarrow> result)"
  by (simp add: processEmail_def split: prod.splits sum.splits)

text \<open>
  C4. Whatever the \<open>try\<close> block of \<open>processEmail\<close> throws, \<open>processEmail\<close> returns the
  failure result that carries the message of the error, and throws nothing. The loop
  over the candidates \<open>es\<close> enters the processing of every one of them, in order, yields
  one result for each, and adds every one of them to the set of processed messages,
  whether its processing succeeded or failed.
\<close>

theorem candidate_boundary:
  "fst (processEmail E m w) =
     (case fst (processEmail_try E m w) of
        Inl error \<Rightarrow> Failure (error_message error)
      | Inr result \<Rightarrow> result) \<and>
   length (fst (process_each E es [] w)) = length es \<and>
   entered (new_events w (snd (process_each E es [] w))) = es \<and>
   processedEmails (snd (process_each E es [] w)) = processedEmails w \<union> set es"
proof -
  from process_each_events [of E es "[]" w] obtain evs where
    evs: "trace (snd (process_each E es [] w)) = trace w @ evs"
         "\<forall>cur. attributed cur es evs"
         "processedEmails (snd (process_each E es [] w)) = processedEmails w \<union> set es"
    by blast
  have "new_events w (snd (process_each E es [] w)) = evs"
    using evs(1) by (rule new_events_append)
  moreover have "entered evs = es" using evs(2) attributed_entered by blast
  ultimately show ?thesis using evs(3) by (simp add: fst_processEmail process_each_length)
qed

text \<open>
  Three candidates, the fetch of the second fails: its result is a failure, and all
  three are entered, answered and added to the set.
\<close>

theorem candidate_boundary_witness:
  "fst (processEmail_try fetch_b_fails_env ''b'' initial_world) = Inl (GatewayError ''not found'') \<and>
   fst (processEmail fetch_b_fails_env ''b'' initial_world) = Failure ''not found'' \<and>
   length (fst (process_each fetch_b_fails_env [''a'', ''b'', ''c''] [] initial_world)) = 3 \<and>
   entered (new_events initial_world
      (snd (process_each fetch_b_fails_env [''a'', ''b'', ''c''] [] initial_world)))
     = [''a'', ''b'', ''c''] \<and>
   processedEmails (snd (process_each fetch_b_fails_env [''a'', ''b'', ''c''] [] initial_world))
     = {''a'', ''b'', ''c''}"
proof -
  have t: "fst (processEmail_try fetch_b_fails_env ''b'' initial_world)
             = Inl (GatewayError ''not found'')"
    by (simp add: processEmail_try_def draft_stage_def fetch_b_fails_env_def up_env_def call_def
          Let_def initial_world_def)
  have p: "processedEmails initial_world = {}" by (simp add: initial_world_def)
  from candidate_boundary [of fetch_b_fails_env "''b''" initial_world "[''a'', ''b'', ''c'']"] t p
  show ?thesis by auto
qed

subsection \<open>Labelling after the draft\<close>

lemma effective_lead_readable:
  "effective_lead E a = Inr l \<Longrightarrow> \<exists>c. get_prop a k = Inr c"
  by (cases a) (auto simp: effective_lead_def split: option.splits)

lemma draft_stage_Inr:
  "fst (draft_stage E m w) = Inr d \<Longrightarrow>
     effective_lead E (d_analysis d) = Inr (d_isLead d) \<and>
     (\<exists>t raw. last (trace (snd (draft_stage E m w))) = DraftsCreate t raw)"
  by (auto simp: draft_stage_def Let_def createDraftResponse_def call_def trace_log
        split: sum.splits prod.splits)

lemma addLabelToEmail_cases:
  "addLabelToEmail E m n w =
     (case fst (resolve_label E n w) of
        Inl error \<Rightarrow>
          log E (''Error managing label: '' @ error_message error) (snd (resolve_label E n w))
      | Inr labelId \<Rightarrow>
          (case messages_modify E (tick (snd (resolve_label E n w))) m labelId of
             Inl error \<Rightarrow>
               log E (''Error adding label to email: '' @ error_message error)
                 (call (snd (resolve_label E n w)) (MessagesModify m labelId))
           | Inr ok \<Rightarrow>
               log E (''Added label '' @ [CHR 0x22] @ n @ [CHR 0x22] @ '' to message '' @ m)
                 (call (snd (resolve_label E n w)) (MessagesModify m labelId))))"
  by (simp add: addLabelToEmail_def Let_def split: prod.splits sum.splits)

text \<open>
  C8. Once the first half of \<open>processEmail\<close> has created the draft, the result is a
  success, with the label name chosen by the flag, whatever the label calls answer. The
  last remote call before the labelling is the creation of the draft, and the calls after
  it are label calls only: nothing touches the draft. In \<open>addLabelToEmail\<close> a failure of
  the lookup or of the creation of the label, and a failure of its application, each end
  in a log entry with the message of the error, and the function returns.
\<close>

theorem label_failure_swallowed:
  "fst (draft_stage E m w) = Inr d \<Longrightarrow>
     (\<exists>c. get_prop (d_analysis d) ''confidence'' = Inr c \<and>
          fst (processEmail E m w) =
            Success m (e_from (d_email d)) (e_subject (d_email d)) (d_isLead d) c
              (if truthy (d_isLead d) then ''lead'' else ''other'')) \<and>
     (\<exists>t raw. last (trace (snd (draft_stage E m w))) = DraftsCreate t raw) \<and>
     list_all is_label_call (new_events (snd (draft_stage E m w)) (snd (processEmail E m w))) \<and>
     addLabelToEmail E m n w' =
       (case fst (resolve_label E n w') of
          Inl error \<Rightarrow>
            log E (''Error managing label: '' @ error_message error) (snd (resolve_label E n w'))
        | Inr labelId \<Rightarrow>
            (case messages_modify E (tick (snd (resolve_label E n w'))) m labelId of
               Inl error \<Rightarrow>
                 log E (''Error adding label to email: '' @ error_message error)
                   (call (snd (resolve_label E n w')) (MessagesModify m labelId))
             | Inr ok \<Rightarrow>
                 log E (''Added label '' @ [CHR 0x22] @ n @ [CHR 0x22] @ '' to message '' @ m)
                   (call (snd (resolve_label E n w')) (MessagesModify m labelId))))"
proof -
  assume h: "fst (draft_stage E m w) = Inr d"
  obtain w1 where d: "draft_stage E m w = (Inr d, w1)"
    using h by (cases "draft_stage E m w") simp
  from draft_stage_Inr [OF h] have e: "effective_lead E (d_analysis d) = Inr (d_isLead d)"
    and l: "\<exists>t raw. last (trace (snd (draft_stage E m w))) = DraftsCreate t raw" by auto
  from effective_lead_readable [OF e] obtain c where
    c: "get_prop (d_analysis d) ''confidence'' = Inr c" by blast
  have r: "fst (processEmail E m w) =
            Success m (e_from (d_email d)) (e_subject (d_email d)) (d_isLead d) c
              (if truthy (d_isLead d) then ''lead'' else ''other'')"
    using d c by (simp add: processEmail_def processEmail_try_def label_stage_def Let_def)
  obtain r2 w2 where ls: "label_stage E m d w1 = (r2, w2)"
    by (cases "label_stage E m d w1")
  have r2: "\<exists>x. r2 = Inr x" using ls c by (auto simp: label_stage_def Let_def)
  have s: "snd (processEmail E m w) = w2"
    using d ls r2 by (auto simp: processEmail_def processEmail_try_def)
  from steps_label_stage [of m w1 E d] ls
  have "steps (\<lambda>ev. is_label_call ev \<and> own m ev) w1 w2" by simp
  then obtain evs where
    evs: "trace w2 = trace w1 @ evs" "list_all (\<lambda>ev. is_label_call ev \<and> own m ev) evs"
    by (auto simp: steps_def)
  have "new_events w1 w2 = evs" using evs(1) by (rule new_events_append)
  moreover have "list_all is_label_call evs" using evs(2) by (simp add: list_all_iff)
  ultimately have
    "list_all is_label_call (new_events (snd (draft_stage E m w)) (snd (processEmail E m w)))"
    using d s by simp
  with c r l addLabelToEmail_cases [of E m n w'] show ?thesis by blast
qed

text \<open>
  Every label call fails, the draft was created: the result is a success with the label
  name \<open>lead\<close>.
\<close>

theorem label_failure_swallowed_witness:
  "fst (draft_stage labels_down_env ''m1'' initial_world) = Inr sample_drafted \<and>
   fst (processEmail labels_down_env ''m1'' initial_world) =
     Success ''m1'' ''ann@example.com'' ''Pricing'' (JBool True) (JNum (9 / 10)) ''lead'' \<and>
   list_all is_label_call
     (new_events (snd (draft_stage labels_down_env ''m1'' initial_world))
                 (snd (processEmail labels_down_env ''m1'' initial_world)))"
proof -
  have h: "fst (draft_stage labels_down_env ''m1'' initial_world) = Inr sample_drafted"
    by (simp add: run_defs labels_down_env_def up_env_def sample_message_def sample_verdict_def
          sample_drafted_def sample_email_def)
  from label_failure_swallowed [OF h] h show ?thesis
    by (auto simp: sample_drafted_def sample_verdict_def sample_email_def)
qed

end
